theory Spec2Isabelle
  imports Complex_Main "HOL-Library.Sublist" "HOL-Library.Multiset"
begin

section \<open>Happy Hour Finder: a shallow embedding of \<^verbatim>\<open>happy_hours.py\<close>\<close>

text \<open>
  The embedding covers the discovery function \<^verbatim>\<open>fetch_happy_hour_data_live\<close>, the two
  graph nodes \<^verbatim>\<open>data_collector_agent\<close> and \<^verbatim>\<open>whistle_api_creator_agent\<close>, the
  conditional edge \<^verbatim>\<open>decide_next_step\<close> and the compiled two-node graph.

  Conventions.
  \<^item> Python floats that the code only compares, takes the maximum of or stores
    (coordinates, ratings, the durations 2, 2.5 and 3) are \<open>real\<close>.
  \<^item> A JSON object is a record of optional fields: \<open>None\<close> is an absent key, so
    \<^verbatim>\<open>d.get(k, default)\<close> is a \<open>case\<close> on the field and \<^verbatim>\<open>d[k]\<close> on an absent
    key is the exception \<open>KeyError\<close>.
  \<^item> A string is Python's Unicode string in its UTF-8 encoding. An ASCII character is one
    byte, and that byte occurs in the encoding of no other character, so testing for
    \<^verbatim>\<open>':'\<close>, splitting at it and searching for an ASCII keyword are on the encoding
    what they are on the code points.
  \<^item> The builtins \<^verbatim>\<open>str.lower\<close> and \<^verbatim>\<open>str.strip\<close> follow the Unicode tables of the
    Python runtime, which are no part of the source: they belong to the environment.
  \<^item> The network is an input: every text-search query has a response, and every search
    result carries the response that the details request for it receives, should the
    code issue one. The requests the code issues are recorded in order.
  \<^item> Log lines and console output are not modelled.
\<close>

subsection \<open>Strings\<close>

text \<open>Python's \<^verbatim>\<open>k in text\<close> on strings: \<open>k\<close> occurs as a contiguous run of \<open>text\<close>.\<close>

fun is_substring :: "string \<Rightarrow> string \<Rightarrow> bool" where
  "is_substring k [] = (k = [])"
| "is_substring k (c # cs) = (prefix k (c # cs) \<or> is_substring k cs)"

text \<open>\<^verbatim>\<open>s.split(sep)\<close> for a separator of one character: never the empty list.\<close>

fun split_on :: "char \<Rightarrow> string \<Rightarrow> string list" where
  "split_on sep [] = [[]]"
| "split_on sep (c # cs) =
     (if c = sep then [] # split_on sep cs
      else (case split_on sep cs of
              [] \<Rightarrow> [[c]]
            | w # ws \<Rightarrow> (c # w) # ws))"

subsection \<open>Distances\<close>

text \<open>
  \<^verbatim>\<open>calculate_distance_km\<close> returns the geodesic distance in kilometres, or
  \<^verbatim>\<open>float('inf')\<close> when the geodesic computation raises. \<open>Inf\<close> is above every
  finite distance.
\<close>

datatype km = Km real | Inf

instantiation km :: linorder
begin

fun less_eq_km :: "km \<Rightarrow> km \<Rightarrow> bool" where
  "less_eq_km x Inf = True"
| "less_eq_km Inf (Km b) = False"
| "less_eq_km (Km a) (Km b) = (a \<le> b)"

definition less_km :: "km \<Rightarrow> km \<Rightarrow> bool" where
  "less_km x y = (x \<le> y \<and> \<not> y \<le> x)"

instance
proof
  fix x y z :: km
  show "(x < y) = (x \<le> y \<and> \<not> y \<le> x)"
    by (simp add: less_km_def)
  show "x \<le> x"
    by (cases x) simp_all
  show "x \<le> y \<Longrightarrow> y \<le> z \<Longrightarrow> x \<le> z"
    by (cases x; cases y; cases z) simp_all
  show "x \<le> y \<Longrightarrow> y \<le> x \<Longrightarrow> x = y"
    by (cases x; cases y) simp_all
  show "x \<le> y \<or> y \<le> x"
    by (cases x; cases y) auto
qed

end

subsection \<open>Data model\<close>

datatype exn = ValueError string | RequestException | JSONDecodeError | KeyError

text \<open>
  A venue object of the places API, as a text-search result or as the \<^verbatim>\<open>result\<close> of a
  details response. \<open>p_location\<close> is \<^verbatim>\<open>geometry.location\<close> when both keys are present,
  with its \<^verbatim>\<open>lat\<close> and \<^verbatim>\<open>lng\<close> entries; a review is its optional \<^verbatim>\<open>text\<close>;
  \<open>p_opening_hours\<close> is \<^verbatim>\<open>opening_hours.weekday_text\<close>.
\<close>

record place =
  p_place_id :: "string option"
  p_name :: "string option"
  p_location :: "(real option \<times> real option) option"
  p_types :: "string list option"
  p_reviews :: "string option list option"
  p_formatted_address :: "string option"
  p_vicinity :: "string option"
  p_formatted_phone_number :: "string option"
  p_website :: "string option"
  p_rating :: "real option"
  p_opening_hours :: "string list option"

text \<open>The empty JSON object \<^verbatim>\<open>{}\<close>.\<close>

definition empty_place :: place where
  "empty_place = \<lparr> p_place_id = None, p_name = None, p_location = None, p_types = None,
     p_reviews = None, p_formatted_address = None, p_vicinity = None,
     p_formatted_phone_number = None, p_website = None, p_rating = None,
     p_opening_hours = None \<rparr>"

text \<open>
  The details request either raises (transport failure, HTTP error status, undecodable
  body) or yields a JSON object with optional \<^verbatim>\<open>status\<close> and \<^verbatim>\<open>result\<close>.
\<close>

datatype details_response =
  DetailsRaises exn
| DetailsJson "string option" "place option"

datatype search_response =
  SearchRaises exn
| SearchJson "string option" "(place \<times> details_response) list option"

datatype request = TextSearch string | Details string

text \<open>The dictionary appended to \<^verbatim>\<open>all_places_found\<close> (lines 484-497), with the
  \<^verbatim>\<open>distance_km\<close> entry that the final filter adds.\<close>

record raw_venue =
  v_name :: "string option"
  v_lat :: real
  v_lng :: real
  v_place_id :: string
  v_types :: "string list"
  v_formatted_address :: string
  v_phone :: string
  v_website :: string
  v_rating :: "real option"
  v_opening_hours :: "string list"
  v_details :: string
  v_validity_hours :: real
  v_distance_km :: "km option"

text \<open>The dictionary appended to \<^verbatim>\<open>formatted_deals\<close> (lines 586-596).\<close>

record deal =
  store_name :: "string option"
  store_address :: "real \<times> real"
  offer_details :: string
  offer_validity_hours :: real
  alert_radius_km :: int
  provider :: bool

record GraphState =
  lat :: "real option"
  lng :: "real option"
  happy_hour_deals :: "deal list"
  api_creation_status :: string
  error_message :: string
  location_name :: string

text \<open>
  What the code reads from outside: the module-level credential, the places API, the
  geodesic computation of the \<^verbatim>\<open>geopy\<close> library (\<open>None\<close> when it raises), and the
  builtins \<^verbatim>\<open>str.lower\<close> and \<^verbatim>\<open>str.strip\<close> of the Python runtime.
\<close>

record env =
  GOOGLE_PLACES_API_KEY :: string
  textsearch :: "string \<Rightarrow> search_response"
  geodesic_kilometers :: "real \<times> real \<Rightarrow> real \<times> real \<Rightarrow> real option"
  str_lower :: "string \<Rightarrow> string"
  str_strip :: "string \<Rightarrow> string"

definition calculate_distance_km :: "env \<Rightarrow> real \<Rightarrow> real \<Rightarrow> real \<Rightarrow> real \<Rightarrow> km" where
  "calculate_distance_km e lat1 lng1 lat2 lng2 =
     (case geodesic_kilometers e (lat1, lng1) (lat2, lng2) of
        Some d \<Rightarrow> Km d
      | None \<Rightarrow> Inf)"

subsection \<open>Happy-hour inference (lines 451-482)\<close>

definition mention_keywords :: "string list" where
  "mention_keywords = [''happy hour'', ''drink special'', ''half price'', ''discount'',
     ''specials'', ''deal'']"

text \<open>The condition of line 456 on one review: \<^verbatim>\<open>review.get('text', '').lower()\<close>
  contains some keyword.\<close>

definition review_mentions :: "env \<Rightarrow> string option \<Rightarrow> bool" where
  "review_mentions e review =
     (let text = str_lower e (case review of None \<Rightarrow> [] | Some t \<Rightarrow> t)
      in list_ex (\<lambda>keyword. is_substring keyword text) mention_keywords)"

text \<open>The loop of lines 454-458, leaving at the first review that matches.\<close>

fun scan_reviews :: "env \<Rightarrow> string option list \<Rightarrow> bool" where
  "scan_reviews e [] = False"
| "scan_reviews e (review # rest) =
     (if review_mentions e review then True else scan_reviews e rest)"

definition has_happy_hour_mention :: "env \<Rightarrow> place \<Rightarrow> bool" where
  "has_happy_hour_mention e detailed_place =
     (let reviews = (case p_reviews detailed_place of None \<Rightarrow> [] | Some rs \<Rightarrow> rs)
      in scan_reviews e (take 5 reviews))"

text \<open>Lines 461-477: offer text and duration from the venue types.\<close>

definition offer_by_types :: "place \<Rightarrow> string \<times> real" where
  "offer_by_types detailed_place =
     (let place_types = (case p_types detailed_place of None \<Rightarrow> [] | Some ts \<Rightarrow> ts)
      in if ''lodging'' \<in> set place_types \<or> ''hotel'' \<in> set place_types then
           (if ''bar'' \<in> set place_types \<or> ''restaurant'' \<in> set place_types then
              (''Hotel Bar/Restaurant Happy Hour: Discounted cocktails, wine, beer, and perhaps small plates.'',
               5 / 2)
            else
              (''Hotel Lobby Bar Happy Hour: Special deals on drinks and appetizers for guests and visitors.'',
               2))
         else if ''bar'' \<in> set place_types \<or> ''pub'' \<in> set place_types
                 \<or> ''night_club'' \<in> set place_types then
           (''Happy Hour: Discounted drinks and possibly appetizers.'', 3)
         else if ''restaurant'' \<in> set place_types then
           (''Happy Hour: Special deals on drinks and appetizers.'', 2)
         else
           (''Potential happy hour at ''
              @ (case p_name detailed_place of None \<Rightarrow> ''Unknown Place'' | Some n \<Rightarrow> n) @ ''.'',
            2))"

text \<open>Lines 479-482: the rewrite when a review mentions a happy hour.\<close>

fun confirm_offer :: "env \<Rightarrow> string \<times> real \<Rightarrow> string \<times> real" where
  "confirm_offer e (details, validity_hours) =
     (''Happy hour confirmed in recent reviews! Deals likely include: ''
        @ (if CHR '':'' \<in> set details
           then str_strip e (split_on CHR '':'' details ! 1)
           else ''discounted drinks/food'')
        @ ''. Call to confirm current offers.'',
      max validity_hours 2)"

definition infer_offer :: "env \<Rightarrow> place \<Rightarrow> string \<times> real" where
  "infer_offer e detailed_place =
     (if has_happy_hour_mention e detailed_place
      then confirm_offer e (offer_by_types detailed_place)
      else offer_by_types detailed_place)"

text \<open>Lines 451-497: the dictionary built for one search result \<open>place\<close> from the
  resolved \<open>detailed_place\<close>.\<close>

definition enrich ::
  "env \<Rightarrow> place \<Rightarrow> place \<Rightarrow> string \<Rightarrow> real \<Rightarrow> real \<Rightarrow> raw_venue" where
  "enrich e place detailed_place place_id place_lat place_lng =
     \<lparr> v_name = p_name detailed_place,
       v_lat = place_lat,
       v_lng = place_lng,
       v_place_id = place_id,
       v_types = (case p_types detailed_place of None \<Rightarrow> [] | Some ts \<Rightarrow> ts),
       v_formatted_address =
         (case p_formatted_address detailed_place of
            Some a \<Rightarrow> a
          | None \<Rightarrow> (case p_vicinity place of Some a \<Rightarrow> a | None \<Rightarrow> ''Address not available'')),
       v_phone = (case p_formatted_phone_number detailed_place of None \<Rightarrow> ''N/A'' | Some x \<Rightarrow> x),
       v_website = (case p_website detailed_place of None \<Rightarrow> ''N/A'' | Some x \<Rightarrow> x),
       v_rating = p_rating detailed_place,
       v_opening_hours = (case p_opening_hours detailed_place of None \<Rightarrow> [] | Some h \<Rightarrow> h),
       v_details = fst (infer_offer e detailed_place),
       v_validity_hours = snd (infer_offer e detailed_place),
       v_distance_km = None \<rparr>"

subsection \<open>Venue discovery (lines 378-519)\<close>

definition search_queries :: "string list" where
  "search_queries = [''hotel happy hour'', ''hotel bar'', ''hotel lounge'',
     ''lodging happy hour'', ''bar'', ''pub'', ''lounge'', ''brewery'',
     ''restaurant with happy hour'', ''cocktail bar'', ''wine bar'']"

text \<open>The mutable locals of the function, with the requests issued so far.\<close>

record acc =
  all_places_found :: "raw_venue list"
  place_ids_found :: "string set"
  requests :: "request list"

text \<open>Line 449: the details result when the status is OK, else the search result.\<close>

definition resolve_details :: "place \<Rightarrow> string option \<Rightarrow> place option \<Rightarrow> place" where
  "resolve_details place status result =
     (if status = Some ''OK''
      then (case result of None \<Rightarrow> empty_place | Some r \<Rightarrow> r)
      else place)"

text \<open>
  The body of the loop over the results of one query (lines 430-498). The second
  component is the exception that leaves the loop, if any; what was appended before
  stays appended.
\<close>

definition process_place ::
  "env \<Rightarrow> acc \<Rightarrow> place \<times> details_response \<Rightarrow> acc \<times> exn option" where
  "process_place e a r =
     (case r of (place, details) \<Rightarrow>
      (case p_place_id place of
         None \<Rightarrow> (a, None)
       | Some place_id \<Rightarrow>
           if place_id = [] \<or> place_id \<in> place_ids_found a then (a, None)
           else
             (case p_location place of
                None \<Rightarrow> (a, None)
              | Some (None, _) \<Rightarrow> (a, Some KeyError)
              | Some (Some place_lat, None) \<Rightarrow> (a, Some KeyError)
              | Some (Some place_lat, Some place_lng) \<Rightarrow>
                  (let a1 = a\<lparr> requests := requests a @ [Details place_id] \<rparr>
                   in case details of
                        DetailsRaises x \<Rightarrow> (a1, Some x)
                      | DetailsJson status result \<Rightarrow>
                          (let detailed_place = resolve_details place status result
                           in (a1\<lparr> all_places_found := all_places_found a1
                                       @ [enrich e place detailed_place place_id place_lat place_lng],
                                    place_ids_found := insert place_id (place_ids_found a1) \<rparr>,
                               None))))))"

fun process_results ::
  "env \<Rightarrow> acc \<Rightarrow> (place \<times> details_response) list \<Rightarrow> acc \<times> exn option" where
  "process_results e a [] = (a, None)"
| "process_results e a (r # rs) =
     (case process_place e a r of
        (a', Some x) \<Rightarrow> (a', Some x)
      | (a', None) \<Rightarrow> process_results e a' rs)"

text \<open>
  One iteration of the loop over the keyword queries (lines 415-508). Every handler
  of the \<^verbatim>\<open>try\<close> only logs, so an exception ends the iteration with the
  accumulated state; so do the statuses other than OK.
\<close>

definition run_query :: "env \<Rightarrow> acc \<Rightarrow> string \<Rightarrow> acc" where
  "run_query e a query_term =
     (let a1 = a\<lparr> requests := requests a @ [TextSearch query_term] \<rparr>
      in case textsearch e query_term of
           SearchRaises x \<Rightarrow> a1
         | SearchJson None results \<Rightarrow> a1
         | SearchJson (Some status) results \<Rightarrow>
             if status = ''OK'' then
               (case results of
                  None \<Rightarrow> a1
                | Some rs \<Rightarrow> fst (process_results e a1 rs))
             else a1)"

text \<open>Lines 511-516: the radius filter, attaching the distance.\<close>

definition filtered_deals :: "env \<Rightarrow> real \<Rightarrow> real \<Rightarrow> real \<Rightarrow> raw_venue list \<Rightarrow> raw_venue list" where
  "filtered_deals e lat0 lng0 radius_km places =
     map (\<lambda>place. place\<lparr> v_distance_km :=
            Some (calculate_distance_km e lat0 lng0 (v_lat place) (v_lng place)) \<rparr>)
       (filter (\<lambda>place. calculate_distance_km e lat0 lng0 (v_lat place) (v_lng place)
                  \<le> Km radius_km) places)"

definition key_error_message :: string where
  "key_error_message = ''Google Places API Key is not set or is invalid. ''
     @ ''Please set GOOGLE_PLACES_API_KEY in your .env file or replace ''
     @ [CHR 0x27] @ ''YOUR_GOOGLE_PLACES_API_KEY_HERE'' @ [CHR 0x27] @ '' in the script.''"

definition empty_acc :: acc where
  "empty_acc = \<lparr> all_places_found = [], place_ids_found = {}, requests = [] \<rparr>"

text \<open>The result is paired with the requests sent to the places API, in order.\<close>

definition fetch_happy_hour_data_live ::
  "env \<Rightarrow> real \<Rightarrow> real \<Rightarrow> real \<Rightarrow> request list \<times> (exn + raw_venue list)" where
  "fetch_happy_hour_data_live e lat0 lng0 radius_km =
     (if GOOGLE_PLACES_API_KEY e = [] \<or>
         GOOGLE_PLACES_API_KEY e = ''YOUR_GOOGLE_PLACES_API_KEY_HERE''
      then ([], Inl (ValueError key_error_message))
      else
        (let a = foldl (run_query e) empty_acc search_queries
         in (requests a, Inr (filtered_deals e lat0 lng0 radius_km (all_places_found a)))))"

subsection \<open>The mock publisher and the graph nodes (lines 523-630)\<close>

text \<open>Playing the sound is not modelled; its failures are caught inside the function.\<close>

definition create_whistle_api_mock :: "deal list \<Rightarrow> string" where
  "create_whistle_api_mock deals_json =
     (if deals_json \<noteq> []
      then ''Whistle API successfully created/updated with new happy hour deals.''
      else ''Whistle API creation failed: No deals to publish.'')"

text \<open>Lines 573-596 for one entry of \<^verbatim>\<open>raw_deals\<close>. The local
  \<^verbatim>\<open>venue_type_display\<close> is computed and never used.\<close>

definition format_deal :: "raw_venue \<Rightarrow> deal" where
  "format_deal d =
     \<lparr> store_name = v_name d,
       store_address = (v_lat d, v_lng d),
       offer_details = v_details d,
       offer_validity_hours = max 1 (v_validity_hours d),
       alert_radius_km = 1,
       provider = True \<rparr>"

definition formatted_deals :: "raw_venue list \<Rightarrow> deal list" where
  "formatted_deals raw_deals = map format_deal raw_deals"

text \<open>Line 599: \<^verbatim>\<open>sorted\<close> with a key is a stable sort by that key.\<close>

definition distance_key :: "env \<Rightarrow> real \<Rightarrow> real \<Rightarrow> deal \<Rightarrow> km" where
  "distance_key e lat0 lng0 x =
     calculate_distance_km e lat0 lng0 (fst (store_address x)) (snd (store_address x))"

definition sorted_formatted_deals :: "env \<Rightarrow> real \<Rightarrow> real \<Rightarrow> deal list \<Rightarrow> deal list" where
  "sorted_formatted_deals e lat0 lng0 deals = sort_key (distance_key e lat0 lng0) deals"

text \<open>\<^verbatim>\<open>str(e)\<close> in the message of line 605.\<close>

fun str_exn :: "exn \<Rightarrow> string" where
  "str_exn (ValueError m) = m"
| "str_exn RequestException = ''RequestException''"
| "str_exn JSONDecodeError = ''JSONDecodeError''"
| "str_exn KeyError = ''KeyError''"

definition data_collector_agent :: "env \<Rightarrow> GraphState \<Rightarrow> GraphState" where
  "data_collector_agent e state =
     (case (lat state, lng state) of
        (Some lat0, Some lng0) \<Rightarrow>
          (case snd (fetch_happy_hour_data_live e lat0 lng0 5) of
             Inr raw_deals \<Rightarrow>
               state\<lparr> happy_hour_deals :=
                 sorted_formatted_deals e lat0 lng0 (formatted_deals raw_deals) \<rparr>
           | Inl x \<Rightarrow>
               state\<lparr> error_message := ''Error in Data Collector: '' @ str_exn x \<rparr>)
      | _ \<Rightarrow>
          state\<lparr> error_message :=
            ''Latitude and Longitude are required inputs for data collection.'' \<rparr>)"

text \<open>The mock cannot raise, so the handler of lines 627-630 has no branch here.\<close>

definition whistle_api_creator_agent :: "GraphState \<Rightarrow> GraphState" where
  "whistle_api_creator_agent state =
     (if happy_hour_deals state = []
      then state\<lparr> api_creation_status := ''No deals found to publish to Whistle API.'' \<rparr>
      else state\<lparr> api_creation_status := create_whistle_api_mock (happy_hour_deals state) \<rparr>)"

subsection \<open>The workflow graph (lines 633-672)\<close>

datatype route = continue_to_whistle_api | end_no_deals | end_with_error

datatype node = data_collector | whistle_api_creator | END

definition decide_next_step :: "GraphState \<Rightarrow> route" where
  "decide_next_step state =
     (if error_message state \<noteq> [] then end_with_error
      else if happy_hour_deals state = [] then end_no_deals
      else continue_to_whistle_api)"

text \<open>The mapping passed to \<^verbatim>\<open>add_conditional_edges\<close>.\<close>

fun conditional_edges :: "route \<Rightarrow> node" where
  "conditional_edges continue_to_whistle_api = whistle_api_creator"
| "conditional_edges end_no_deals = END"
| "conditional_edges end_with_error = END"

text \<open>One node of the graph: the state it returns and the node its outgoing edge
  leads to.\<close>

fun step :: "env \<Rightarrow> node \<Rightarrow> GraphState \<Rightarrow> node \<times> GraphState" where
  "step e data_collector state =
     (let state' = data_collector_agent e state
      in (conditional_edges (decide_next_step state'), state'))"
| "step e whistle_api_creator state = (END, whistle_api_creator_agent state)"
| "step e END state = (END, state)"

text \<open>Running the graph from a node until \<open>END\<close>: the nodes run, in order, and the
  final state. The fuel bounds the number of nodes run; two suffice.\<close>

fun run_graph :: "env \<Rightarrow> nat \<Rightarrow> node \<Rightarrow> GraphState \<Rightarrow> (node list \<times> GraphState) option" where
  "run_graph e fuel END state = Some ([], state)"
| "run_graph e 0 n state = None"
| "run_graph e (Suc fuel) n state =
     (case step e n state of
        (n', state') \<Rightarrow>
          (case run_graph e fuel n' state' of
             None \<Rightarrow> None
           | Some (visited, final) \<Rightarrow> Some (n # visited, final)))"

text \<open>\<^verbatim>\<open>app.invoke\<close>: the entry point is the collector.\<close>

definition app_invoke :: "env \<Rightarrow> GraphState \<Rightarrow> (node list \<times> GraphState) option" where
  "app_invoke e state = run_graph e 2 data_collector state"

text \<open>Lines 768-775 of \<^verbatim>\<open>main\<close>, which is reached with both coordinates set.\<close>

definition initial_state :: "real \<Rightarrow> real \<Rightarrow> string \<Rightarrow> GraphState" where
  "initial_state lat0 lng0 name =
     \<lparr> lat = Some lat0, lng = Some lng0, happy_hour_deals = [],
       api_creation_status = [], error_message = [], location_name = name \<rparr>"

subsection \<open>The classification as the specification words it\<close>

text \<open>
  An ordered table of rules on the venue's categories, each with its duration in
  hours; the first rule whose predicate holds decides, and 2 hours is the default.
  Written from the specification, to be compared with the nested conditionals of
  \<open>offer_by_types\<close>.
\<close>

definition spec_rules :: "((string list \<Rightarrow> bool) \<times> real) list" where
  "spec_rules =
     [(\<lambda>ts. (''lodging'' \<in> set ts \<or> ''hotel'' \<in> set ts)
             \<and> (''bar'' \<in> set ts \<or> ''restaurant'' \<in> set ts), 5 / 2),
      (\<lambda>ts. ''lodging'' \<in> set ts \<or> ''hotel'' \<in> set ts, 2),
      (\<lambda>ts. ''bar'' \<in> set ts \<or> ''pub'' \<in> set ts \<or> ''night_club'' \<in> set ts, 3),
      (\<lambda>ts. ''restaurant'' \<in> set ts, 2)]"

fun first_match :: "(('a \<Rightarrow> bool) \<times> 'b) list \<Rightarrow> 'b \<Rightarrow> 'a \<Rightarrow> 'b" where
  "first_match [] dflt x = dflt"
| "first_match ((p, v) # rules) dflt x = (if p x then v else first_match rules dflt x)"

definition spec_duration :: "string list \<Rightarrow> real" where
  "spec_duration ts = first_match spec_rules 2 ts"

subsection \<open>The deduplication invariant\<close>

text \<open>Between iterations, the identifiers of the venues found are pairwise different
  and all recorded in \<open>place_ids_found\<close>.\<close>

definition ids_tracked :: "acc \<Rightarrow> bool" where
  "ids_tracked a =
     (distinct (map v_place_id (all_places_found a)) \<and>
      v_place_id ` set (all_places_found a) \<subseteq> place_ids_found a)"

subsection \<open>Example inputs\<close>

text \<open>
  Stand-ins for the two builtins, right on ASCII text: lowering maps the letters A to Z
  (codes 65 to 90) to the code 32 above and keeps every other byte; stripping removes
  the ASCII white space at both ends.
\<close>

definition ascii_lower_char :: "char \<Rightarrow> char" where
  "ascii_lower_char c =
     (if 65 \<le> (of_char c :: nat) \<and> (of_char c :: nat) \<le> 90
      then char_of (of_char c + 32 :: nat)
      else c)"

definition ascii_lower :: "string \<Rightarrow> string" where
  "ascii_lower s = map ascii_lower_char s"

definition is_space :: "char \<Rightarrow> bool" where
  "is_space c = (c \<in> set [CHR '' '', CHR 0x09, CHR 0x0A, CHR 0x0B, CHR 0x0C, CHR 0x0D,
     CHR 0x1C, CHR 0x1D, CHR 0x1E, CHR 0x1F])"

definition ascii_strip :: "string \<Rightarrow> string" where
  "ascii_strip s = rev (dropWhile is_space (rev (dropWhile is_space s)))"

text \<open>A stand-in for the geodesic: 111 km per degree, along the axes.\<close>

definition example_geodesic :: "real \<times> real \<Rightarrow> real \<times> real \<Rightarrow> real option" where
  "example_geodesic a b = Some (111 * (\<bar>fst a - fst b\<bar> + \<bar>snd a - snd b\<bar>))"

definition example_place ::
  "string \<Rightarrow> string \<Rightarrow> real \<Rightarrow> real \<Rightarrow> string list \<Rightarrow> string list \<Rightarrow> place" where
  "example_place pid name la lo types reviews =
     \<lparr> p_place_id = Some pid, p_name = Some name, p_location = Some (Some la, Some lo),
       p_types = Some types, p_reviews = Some (map Some reviews),
       p_formatted_address = None, p_vicinity = Some ''Broadway'',
       p_formatted_phone_number = None, p_website = None, p_rating = None,
       p_opening_hours = None \<rparr>"

text \<open>A places API that answers the listed queries with status OK and the given
  results, and every other query with ZERO_RESULTS.\<close>

definition example_env :: "(string \<times> (place \<times> details_response) list) list \<Rightarrow> env" where
  "example_env responses =
     \<lparr> GOOGLE_PLACES_API_KEY = ''test-key'',
       textsearch = (\<lambda>q. case map_of responses q of
                           Some rs \<Rightarrow> SearchJson (Some ''OK'') (Some rs)
                         | None \<Rightarrow> SearchJson (Some ''ZERO_RESULTS'') (Some [])),
       geodesic_kilometers = example_geodesic,
       str_lower = ascii_lower,
       str_strip = ascii_strip \<rparr>"

definition ok_details :: "place \<Rightarrow> details_response" where
  "ok_details p = DetailsJson (Some ''OK'') (Some p)"

definition nyc :: GraphState where
  "nyc = initial_state 40.7128 (- 74.0060) ''New York''"

definition bar_place :: place where
  "bar_place = example_place ''bar-1'' ''Corner Bar'' 40.72 (- 74.0) [''bar'']
     [''Come for the happy hour special on Fridays!'']"

definition quiet_bar :: place where
  "quiet_bar = example_place ''bar-2'' ''Quiet Bar'' 40.72 (- 74.01) [''bar'']
     [''Nice place.'']"

definition loud_pub :: place where
  "loud_pub = example_place ''pub-1'' ''Loud Pub'' 40.71 (- 74.0) [''pub'']
     [''Friendly staff.'', ''HALF PRICE wings every Monday'']"

definition hotel_a :: place where
  "hotel_a = example_place ''hotel-a'' ''Hotel A'' 40.71 (- 74.0) [''lodging'']
     [''Clean rooms.'']"

definition hotel_b :: place where
  "hotel_b = example_place ''hotel-b'' ''Hotel B'' 40.72 (- 74.01) [''lodging'', ''bar'']
     []"

definition env_bar :: env where
  "env_bar = example_env [(''bar'', [(bar_place, ok_details bar_place)])]"

definition env_quiet :: env where
  "env_quiet = example_env [(''bar'', [(quiet_bar, ok_details quiet_bar)])]"


definition env_no_key :: env where
  "env_no_key = env_bar\<lparr> GOOGLE_PLACES_API_KEY := ''YOUR_GOOGLE_PLACES_API_KEY_HERE'' \<rparr>"

text \<open>Two keyword queries return the same place identifier.\<close>

definition env_twice :: env where
  "env_twice = example_env
     [(''hotel bar'', [(hotel_b, ok_details hotel_b)]),
      (''bar'', [(hotel_b, ok_details hotel_b), (bar_place, ok_details bar_place)])]"

text \<open>The details request for the first of two results fails: by raising, or with a
  status other than OK.\<close>

definition env_details_raise :: env where
  "env_details_raise = example_env
     [(''hotel bar'', [(hotel_a, DetailsRaises RequestException),
                        (hotel_b, ok_details hotel_b)])]"

definition env_details_denied :: env where
  "env_details_denied = example_env
     [(''hotel bar'', [(hotel_a, DetailsJson (Some ''REQUEST_DENIED'') None),
                        (hotel_b, ok_details hotel_b)])]"

text \<open>A venue record whose inferred duration is below one hour.\<close>

definition short_venue :: raw_venue where
  "short_venue =
     (enrich env_quiet quiet_bar quiet_bar ''bar-2'' 40.72 (- 74.01))\<lparr> v_validity_hours := 1 / 4 \<rparr>"

text \<open>A pub whose only review with a keyword is the sixth.\<close>

definition late_pub :: place where
  "late_pub = example_place ''pub-2'' ''Late Pub'' 40.71 (- 74.0) [''pub'']
     [''One.'', ''Two.'', ''Three.'', ''Four.'', ''Five.'', ''Best happy hour in town'']"

text \<open>
  Three bars returned in the order far, east, north: the first 2.22 km from the origin
  (40.7128, -74.0060), the other two both 1.11 km from it.
\<close>

definition far_bar :: place where
  "far_bar = example_place ''bar-far'' ''Far Bar'' 40.7328 (- 74.0060) [''bar''] []"

definition east_bar :: place where
  "east_bar = example_place ''bar-east'' ''East Bar'' 40.7128 (- 73.9960) [''bar''] []"

definition north_bar :: place where
  "north_bar = example_place ''bar-north'' ''North Bar'' 40.7228 (- 74.0060) [''bar''] []"

definition env_three :: env where
  "env_three = example_env
     [(''bar'', [(far_bar, ok_details far_bar), (east_bar, ok_details east_bar),
                 (north_bar, ok_details north_bar)])]"


section \<open>Properties\<close>

subsection \<open>Strings and the inference\<close>

lemma is_substring_sublist: "is_substring k t \<longleftrightarrow> sublist k t"
  by (induction t) (simp_all add: sublist_Cons_right)

lemma scan_reviews_ex: "scan_reviews e rs \<longleftrightarrow> (\<exists>r\<in>set rs. review_mentions e r)"
  by (induction rs) auto

lemma scan_reviews_first: "review_mentions e r \<Longrightarrow> scan_reviews e (pre @ r # rest)"
  by (simp add: scan_reviews_ex)

lemma offer_by_types_duration:
  "snd (offer_by_types dp) = spec_duration (case p_types dp of None \<Rightarrow> [] | Some ts \<Rightarrow> ts)"
  by (cases "p_types dp")
    (simp_all add: offer_by_types_def spec_duration_def spec_rules_def Let_def)

lemma offer_by_types_ge2: "2 \<le> snd (offer_by_types dp)"
  by (cases "p_types dp") (simp_all add: offer_by_types_def Let_def)

lemma confirm_offer_snd: "snd (confirm_offer e x) = max (snd x) 2"
  by (cases x) simp

lemma confirm_offer_fst:
  "prefix ''Happy hour confirmed in recent reviews!'' (fst (confirm_offer e x))"
  by (cases x) simp

lemma infer_offer_duration: "snd (infer_offer e dp) = snd (offer_by_types dp)"
  using offer_by_types_ge2 [of dp] by (simp add: infer_offer_def confirm_offer_snd)

subsection \<open>The discovery loop keeps the identifiers distinct\<close>

lemma enrich_place_id: "v_place_id (enrich e p dp pid la lo) = pid"
  by (simp add: enrich_def)

lemma process_place_tracked: "ids_tracked a \<Longrightarrow> ids_tracked (fst (process_place e a r))"
  unfolding process_place_def ids_tracked_def
  by (auto simp: Let_def enrich_place_id split: prod.splits option.splits details_response.splits)

lemma process_results_tracked:
  "ids_tracked a \<Longrightarrow> ids_tracked (fst (process_results e a rs))"
proof (induction rs arbitrary: a)
  case Nil
  then show ?case by simp
next
  case (Cons r rs)
  from Cons.prems have t: "ids_tracked (fst (process_place e a r))"
    by (rule process_place_tracked)
  show ?case
  proof (cases "process_place e a r")
    case (Pair a' x)
    with t have t': "ids_tracked a'" by simp
    show ?thesis
    proof (cases x)
      case None
      with Pair Cons.IH [OF t'] show ?thesis by simp
    next
      case (Some x')
      with Pair t' show ?thesis by simp
    qed
  qed
qed

lemma requests_update_tracked: "ids_tracked (a\<lparr> requests := rq \<rparr>) = ids_tracked a"
  by (simp add: ids_tracked_def)

lemma run_query_tracked: "ids_tracked a \<Longrightarrow> ids_tracked (run_query e a q)"
  unfolding run_query_def
  by (auto simp: Let_def requests_update_tracked process_results_tracked
      split: search_response.splits option.splits)

lemma foldl_run_query_tracked:
  "ids_tracked a \<Longrightarrow> ids_tracked (foldl (run_query e) a qs)"
  by (induction qs arbitrary: a) (simp_all add: run_query_tracked)

lemma filtered_deals_ids:
  "map v_place_id (filtered_deals e lat0 lng0 r ps) =
   map v_place_id
     (filter (\<lambda>place. calculate_distance_km e lat0 lng0 (v_lat place) (v_lng place) \<le> Km r) ps)"
  by (simp add: filtered_deals_def comp_def)

lemma fetch_distinct:
  assumes "snd (fetch_happy_hour_data_live e lat0 lng0 r) = Inr raw"
  shows "distinct (map v_place_id raw)"
proof -
  have "ids_tracked empty_acc"
    by (simp add: ids_tracked_def empty_acc_def)
  then have "ids_tracked (foldl (run_query e) empty_acc search_queries)"
    by (rule foldl_run_query_tracked)
  then have "distinct (map v_place_id
      (all_places_found (foldl (run_query e) empty_acc search_queries)))"
    by (simp add: ids_tracked_def)
  then have "distinct (map v_place_id (filtered_deals e lat0 lng0 r
      (all_places_found (foldl (run_query e) empty_acc search_queries))))"
    unfolding filtered_deals_ids by (rule distinct_map_filter)
  with assms show ?thesis
    by (auto simp: fetch_happy_hour_data_live_def Let_def split: if_splits)
qed

subsection \<open>The collector and the graph\<close>

lemma collector_deals:
  assumes "lat s = Some lat0" "lng s = Some lng0"
    and "snd (fetch_happy_hour_data_live e lat0 lng0 5) = Inr raw"
  shows "happy_hour_deals (data_collector_agent e s) =
    sorted_formatted_deals e lat0 lng0 (formatted_deals raw)"
  using assms by (simp add: data_collector_agent_def)

text \<open>The graph always reaches \<open>END\<close> within the fuel given: one or two nodes run.\<close>

lemma app_invoke_eq:
  "app_invoke e s =
     (let s1 = data_collector_agent e s
      in if error_message s1 \<noteq> [] \<or> happy_hour_deals s1 = [] then Some ([data_collector], s1)
         else Some ([data_collector, whistle_api_creator], whistle_api_creator_agent s1))"
  by (simp add: app_invoke_def numeral_2_eq_2 Let_def decide_next_step_def)

lemma app_invoke_total: "\<exists>visited final. app_invoke e s = Some (visited, final)"
  by (simp add: app_invoke_eq Let_def)


subsection \<open>Keyword search and letter case\<close>

lemma review_mentions_iff:
  "review_mentions e r \<longleftrightarrow>
     (\<exists>k \<in> set [''happy hour'', ''drink special'', ''half price'', ''discount'',
                 ''specials'', ''deal''].
        \<exists>pre suf. str_lower e (case r of None \<Rightarrow> [] | Some t \<Rightarrow> t) = pre @ k @ suf)"
  unfolding review_mentions_def Let_def list_ex_iff mention_keywords_def
    is_substring_sublist sublist_def ..

lemma keyword_not_upper:
  assumes "k \<in> set [''happy hour'', ''drink special'', ''half price'', ''discount'',
      ''specials'', ''deal'']"
    and "b \<in> set k"
  shows "\<not> (65 \<le> (of_char b :: nat) \<and> (of_char b :: nat) \<le> 90)"
  using assms by auto

lemma ascii_lower_char_eq:
  assumes "\<not> (65 \<le> (of_char b :: nat) \<and> (of_char b :: nat) \<le> 90)"
  shows "ascii_lower_char a = b \<longleftrightarrow>
    (a = b \<or> (65 \<le> (of_char a :: nat) \<and> (of_char a :: nat) \<le> 90 \<and>
       (of_char b :: nat) = of_char a + 32))"
  using assms
  by (auto simp: ascii_lower_char_def of_char_of) (metis char_of_char)

lemma map_eq_infix:
  "(\<exists>pre suf. map f t = pre @ k @ suf) \<longleftrightarrow>
   (\<exists>pre mid suf. t = pre @ mid @ suf \<and> map f mid = k)"
proof
  assume "\<exists>pre suf. map f t = pre @ k @ suf"
  then obtain pre suf where "map f t = pre @ k @ suf"
    by blast
  then obtain us vs where t: "t = us @ vs" and "pre = map f us" and v: "k @ suf = map f vs"
    by (auto simp: map_eq_append_conv)
  from v obtain ms ss where "vs = ms @ ss" and "k = map f ms"
    by (metis map_eq_append_conv)
  with t show "\<exists>pre mid suf. t = pre @ mid @ suf \<and> map f mid = k"
    by blast
next
  assume "\<exists>pre mid suf. t = pre @ mid @ suf \<and> map f mid = k"
  then obtain pre mid suf where "t = pre @ mid @ suf" and "map f mid = k"
    by blast
  then have "map f t = map f pre @ k @ map f suf"
    by simp
  then show "\<exists>pre suf. map f t = pre @ k @ suf"
    by blast
qed

lemma ascii_lower_matches:
  assumes k: "k \<in> set [''happy hour'', ''drink special'', ''half price'', ''discount'',
      ''specials'', ''deal'']"
  shows "map ascii_lower_char mid = k \<longleftrightarrow>
    list_all2 (\<lambda>a b. a = b \<or> (65 \<le> (of_char a :: nat) \<and> (of_char a :: nat) \<le> 90 \<and>
       (of_char b :: nat) = of_char a + 32)) mid k"
proof -
  have "map ascii_lower_char mid = k \<longleftrightarrow> list_all2 (\<lambda>a b. ascii_lower_char a = b) mid k"
    by (simp add: list_all2_map1 [where P = "(=)", symmetric] list.rel_eq)
  also have "\<dots> \<longleftrightarrow> list_all2 (\<lambda>a b. a = b \<or> (65 \<le> (of_char a :: nat) \<and>
      (of_char a :: nat) \<le> 90 \<and> (of_char b :: nat) = of_char a + 32)) mid k"
    by (rule list.rel_cong) (simp_all add: ascii_lower_char_eq [OF keyword_not_upper [OF k]])
  finally show ?thesis .
qed

subsection \<open>The order of distances\<close>

lemma km_le_iff:
  "(case x of Some a \<Rightarrow> Km a | None \<Rightarrow> Inf) \<le> (case y of Some b \<Rightarrow> Km b | None \<Rightarrow> Inf) \<longleftrightarrow>
   (case (x, y) of (Some a, Some b) \<Rightarrow> a \<le> b | (_, None) \<Rightarrow> True | (None, Some b) \<Rightarrow> False)"
  by (cases x; cases y) simp_all

lemma distance_key_geodesic:
  "distance_key e lat0 lng0 d =
     (case geodesic_kilometers e (lat0, lng0) (store_address d) of
        Some a \<Rightarrow> Km a
      | None \<Rightarrow> Inf)"
  by (simp add: distance_key_def calculate_distance_km_def)

lemma distance_key_eq_iff:
  "distance_key e lat0 lng0 d = (case k of Some a \<Rightarrow> Km a | None \<Rightarrow> Inf) \<longleftrightarrow>
   geodesic_kilometers e (lat0, lng0) (store_address d) = k"
  by (cases k; cases "geodesic_kilometers e (lat0, lng0) (store_address d)")
    (simp_all add: distance_key_geodesic)

section \<open>The claims\<close>

text \<open>
  Claim C1, as stated: the Deal built for a venue carries a boolean equal to the venue's
  explicit-mention flag. The only boolean of the Deal is \<open>provider\<close>, and it fails at a
  bar whose single review mentions no keyword: the flag is false and the Deal's boolean
  is true.
\<close>

theorem provider_differs_from_mention_flag:
  "map provider (happy_hour_deals (data_collector_agent env_quiet nyc))
     \<noteq> [has_happy_hour_mention env_quiet quiet_bar]"
  by code_simp

text \<open>
  Claim C1, amended: every Deal the collector builds carries the boolean \<open>provider\<close>,
  which is true whatever the venue's explicit-mention flag, the flag itself not being
  carried into the Deal; in particular, for the origin (40.7128, -74.0060) and one
  discovered candidate of category bar whose review contains ``happy hour special'',
  the flag is true and the Deal's boolean is true.
\<close>

theorem deal_provider_always_true:
  "provider (format_deal (enrich e place detailed_place pid la lo)) \<and>
   list_all provider (sorted_formatted_deals e lat0 lng0 (formatted_deals raw)) \<and>
   has_happy_hour_mention env_bar bar_place \<and>
   map provider (happy_hour_deals (data_collector_agent env_bar nyc)) = [True]"
proof (intro conjI)
  show "provider (format_deal (enrich e place detailed_place pid la lo))"
    by (simp add: format_deal_def)
  show "list_all provider (sorted_formatted_deals e lat0 lng0 (formatted_deals raw))"
    by (simp add: list_all_iff sorted_formatted_deals_def formatted_deals_def format_deal_def)
  show "has_happy_hour_mention env_bar bar_place"
    by code_simp
  show "map provider (happy_hour_deals (data_collector_agent env_bar nyc)) = [True]"
    by code_simp
qed

text \<open>
  Claim C2: when the details request for a search result fails, discovery still emits
  a candidate for that venue from the basic search fields, and no other result is
  dropped. The code does so when the details response has a status other than OK
  (last conjunct: both venues are emitted, the first from its search record). When the
  details request raises, the exception leaves the loop over the results: the request
  for the first venue is issued, none is issued for the second, and neither venue is
  emitted.
\<close>

theorem details_exception_drops_rest_of_query:
  "snd (fetch_happy_hour_data_live env_details_raise 40.7128 (- 74.0060) 5) = Inr [] \<and>
   Details ''hotel-a'' \<in> set (fst (fetch_happy_hour_data_live env_details_raise 40.7128 (- 74.0060) 5)) \<and>
   Details ''hotel-b'' \<notin> set (fst (fetch_happy_hour_data_live env_details_raise 40.7128 (- 74.0060) 5)) \<and>
   map_sum id (map (\<lambda>v. (v_place_id v, v_name v)))
       (snd (fetch_happy_hour_data_live env_details_denied 40.7128 (- 74.0060) 5)) =
     Inr [(''hotel-a'', Some ''Hotel A''), (''hotel-b'', Some ''Hotel B'')]"
  by code_simp



text \<open>
  Claim C4: whatever the query responses, the candidates that discovery emits have
  pairwise different place identifiers, and the assembled deal list holds exactly one
  Deal for each of them: it is the candidates' Deals, each once, and as many as there
  are distinct identifiers.
\<close>

theorem discovery_ids_distinct_one_deal_each:
  assumes "lat s = Some lat0" and "lng s = Some lng0"
    and "snd (fetch_happy_hour_data_live e lat0 lng0 5) = Inr raw"
  shows "distinct (map v_place_id raw) \<and>
     mset (happy_hour_deals (data_collector_agent e s)) = image_mset format_deal (mset raw) \<and>
     length (happy_hour_deals (data_collector_agent e s)) = card (v_place_id ` set raw)"
proof -
  have d: "distinct (map v_place_id raw)"
    using assms(3) by (rule fetch_distinct)
  have h: "happy_hour_deals (data_collector_agent e s) =
      sorted_formatted_deals e lat0 lng0 (formatted_deals raw)"
    using assms by (rule collector_deals)
  have m: "mset (happy_hour_deals (data_collector_agent e s)) = image_mset format_deal (mset raw)"
    by (simp add: h sorted_formatted_deals_def formatted_deals_def)
  have "length (happy_hour_deals (data_collector_agent e s)) = length raw"
    by (simp add: h sorted_formatted_deals_def formatted_deals_def)
  also have "\<dots> = card (v_place_id ` set raw)"
    using d by (metis distinct_card length_map set_map)
  finally show ?thesis
    using d m by simp
qed

text \<open>The witness: the queries ``hotel bar'' and ``bar'' both return \<open>hotel-b\<close>.\<close>

theorem discovery_ids_distinct_one_deal_each_witness:
  "lat nyc = Some 40.7128 \<and> lng nyc = Some (- 74.0060) \<and>
   snd (fetch_happy_hour_data_live env_twice 40.7128 (- 74.0060) 5) =
     Inr (projr (snd (fetch_happy_hour_data_live env_twice 40.7128 (- 74.0060) 5))) \<and>
   map v_place_id (projr (snd (fetch_happy_hour_data_live env_twice 40.7128 (- 74.0060) 5))) =
     [''hotel-b'', ''bar-1''] \<and>
   length (happy_hour_deals (data_collector_agent env_twice nyc)) = 2"
proof -
  let ?r = "snd (fetch_happy_hour_data_live env_twice 40.7128 (- 74.0060) 5)"
  have l: "lat nyc = Some 40.7128" "lng nyc = Some (- 74.0060)"
    by (simp_all add: nyc_def initial_state_def)
  have "\<not> isl ?r"
    by code_simp
  then have f: "?r = Inr (projr ?r)"
    by simp
  have i: "map v_place_id (projr ?r) = [''hotel-b'', ''bar-1'']"
    by code_simp
  from discovery_ids_distinct_one_deal_each [OF l f]
  have "length (happy_hour_deals (data_collector_agent env_twice nyc)) =
      card (set (map v_place_id (projr ?r)))"
    by simp
  also have "\<dots> = 2"
    unfolding i by simp
  finally show ?thesis
    using l f i by simp
qed

text \<open>
  Claim C5: every Deal the assembler produces has a validity of at least one hour and
  the alert radius 1, whatever validity the venue record carries.
\<close>

theorem deal_validity_clamped_radius_fixed:
  "1 \<le> offer_validity_hours (format_deal v) \<and> alert_radius_km (format_deal v) = 1 \<and>
   (\<forall>d \<in> set (sorted_formatted_deals e lat0 lng0 (formatted_deals raw)).
      1 \<le> offer_validity_hours d \<and> alert_radius_km d = 1)"
  by (auto simp: sorted_formatted_deals_def formatted_deals_def format_deal_def)

text \<open>The witness: a venue record with a validity of a quarter of an hour.\<close>

theorem deal_validity_clamped_radius_fixed_witness:
  "v_validity_hours short_venue = 1 / 4 \<and>
   format_deal short_venue
     \<in> set (sorted_formatted_deals env_bar 40.7128 (- 74.0060) (formatted_deals [short_venue])) \<and>
   offer_validity_hours (format_deal short_venue) = 1 \<and>
   alert_radius_km (format_deal short_venue) = 1"
proof -
  have m: "format_deal short_venue
      \<in> set (sorted_formatted_deals env_bar 40.7128 (- 74.0060) (formatted_deals [short_venue]))"
    by (simp add: sorted_formatted_deals_def formatted_deals_def)
  have v: "v_validity_hours short_venue = 1 / 4"
    by (simp add: short_venue_def)
  then have "offer_validity_hours (format_deal short_venue) = 1"
    by (simp add: format_deal_def)
  with m v
    deal_validity_clamped_radius_fixed [of short_venue env_bar "40.7128" "- 74.0060" "[short_venue]"]
  show ?thesis
    by blast
qed

text \<open>
  Claim C6: for every sequence of venue records (empty or not) and every origin, the
  deal list is sorted ascending by the geodesic distance from the origin to each Deal's
  location, a distance that cannot be computed counting as infinite, and the sort is
  stable: the Deals at any one distance are in the order in which they were built.
  This holds of the list the assembler builds from any sequence of venue records, and of
  the list the collector stores in the state, whose origin is the state's coordinates.
\<close>

theorem deals_sorted_by_distance_stable:
  assumes "lat s = Some lat0" and "lng s = Some lng0"
    and "snd (fetch_happy_hour_data_live e lat0 lng0 5) = Inr raw"
  shows
    "sorted_wrt
       (\<lambda>a b. case (geodesic_kilometers e (lat0, lng0) (store_address a),
                     geodesic_kilometers e (lat0, lng0) (store_address b)) of
                 (Some x, Some y) \<Rightarrow> x \<le> y
               | (_, None) \<Rightarrow> True
               | (None, Some y) \<Rightarrow> False)
       (happy_hour_deals (data_collector_agent e s)) \<and>
     (\<forall>k. filter (\<lambda>d. geodesic_kilometers e (lat0, lng0) (store_address d) = k)
            (happy_hour_deals (data_collector_agent e s)) =
          filter (\<lambda>d. geodesic_kilometers e (lat0, lng0) (store_address d) = k)
            (map format_deal raw)) \<and>
     sorted_wrt
       (\<lambda>a b. case (geodesic_kilometers e (lat0, lng0) (store_address a),
                     geodesic_kilometers e (lat0, lng0) (store_address b)) of
                 (Some x, Some y) \<Rightarrow> x \<le> y
               | (_, None) \<Rightarrow> True
               | (None, Some y) \<Rightarrow> False)
       (sorted_formatted_deals e lat0 lng0 (formatted_deals venues)) \<and>
     (\<forall>k. filter (\<lambda>d. geodesic_kilometers e (lat0, lng0) (store_address d) = k)
            (sorted_formatted_deals e lat0 lng0 (formatted_deals venues)) =
          filter (\<lambda>d. geodesic_kilometers e (lat0, lng0) (store_address d) = k)
            (map format_deal venues))"
proof -
  let ?geo = "\<lambda>d. geodesic_kilometers e (lat0, lng0) (store_address d)"
  let ?le = "\<lambda>a b. case (?geo a, ?geo b) of
      (Some x, Some y) \<Rightarrow> x \<le> y | (_, None) \<Rightarrow> True | (None, Some y) \<Rightarrow> False"
  have srt: "sorted_wrt ?le (sorted_formatted_deals e lat0 lng0 ds)" for ds
  proof -
    have "sorted (map (distance_key e lat0 lng0) (sorted_formatted_deals e lat0 lng0 ds))"
      by (simp add: sorted_formatted_deals_def)
    then have "sorted_wrt (\<lambda>a b. distance_key e lat0 lng0 a \<le> distance_key e lat0 lng0 b)
        (sorted_formatted_deals e lat0 lng0 ds)"
      by (simp add: sorted_map)
    then show ?thesis
      by (simp add: distance_key_geodesic km_le_iff)
  qed
  have stb: "filter (\<lambda>d. ?geo d = k) (sorted_formatted_deals e lat0 lng0 ds) =
      filter (\<lambda>d. ?geo d = k) ds" for k ds
  proof -
    have "filter (\<lambda>d. distance_key e lat0 lng0 d = (case k of Some a \<Rightarrow> Km a | None \<Rightarrow> Inf))
        (sorted_formatted_deals e lat0 lng0 ds) =
      filter (\<lambda>d. distance_key e lat0 lng0 d = (case k of Some a \<Rightarrow> Km a | None \<Rightarrow> Inf)) ds"
      unfolding sorted_formatted_deals_def by (rule sort_key_stable)
    then show ?thesis
      by (simp only: distance_key_eq_iff)
  qed
  have h: "happy_hour_deals (data_collector_agent e s) =
      sorted_formatted_deals e lat0 lng0 (formatted_deals raw)"
    using assms by (rule collector_deals)
  show ?thesis
    unfolding h using srt stb by (simp add: formatted_deals_def)
qed

text \<open>The witness: three bars found in the order far, east, north; the two at 1.11 km come
  first, east before north as found, and the one at 2.22 km last.\<close>

theorem deals_sorted_by_distance_stable_witness:
  "lat nyc = Some 40.7128 \<and> lng nyc = Some (- 74.0060) \<and>
   snd (fetch_happy_hour_data_live env_three 40.7128 (- 74.0060) 5) =
     Inr (projr (snd (fetch_happy_hour_data_live env_three 40.7128 (- 74.0060) 5))) \<and>
   map v_name (projr (snd (fetch_happy_hour_data_live env_three 40.7128 (- 74.0060) 5))) =
     [Some ''Far Bar'', Some ''East Bar'', Some ''North Bar''] \<and>
   map store_name (happy_hour_deals (data_collector_agent env_three nyc)) =
     [Some ''East Bar'', Some ''North Bar'', Some ''Far Bar''] \<and>
   map (\<lambda>d. geodesic_kilometers env_three (40.7128, - 74.0060) (store_address d))
       (happy_hour_deals (data_collector_agent env_three nyc)) =
     [Some 1.11, Some 1.11, Some 2.22] \<and>
   sorted_wrt
     (\<lambda>a b. case (geodesic_kilometers env_three (40.7128, - 74.0060) (store_address a),
                   geodesic_kilometers env_three (40.7128, - 74.0060) (store_address b)) of
               (Some x, Some y) \<Rightarrow> x \<le> y
             | (_, None) \<Rightarrow> True
             | (None, Some y) \<Rightarrow> False)
     (happy_hour_deals (data_collector_agent env_three nyc))"
proof -
  let ?r = "snd (fetch_happy_hour_data_live env_three 40.7128 (- 74.0060) 5)"
  have l: "lat nyc = Some 40.7128" "lng nyc = Some (- 74.0060)"
    by (simp_all add: nyc_def initial_state_def)
  have "\<not> isl ?r"
    by code_simp
  then have f: "?r = Inr (projr ?r)"
    by simp
  have v: "map v_name (projr ?r) = [Some ''Far Bar'', Some ''East Bar'', Some ''North Bar'']"
    by code_simp
  have n: "map store_name (happy_hour_deals (data_collector_agent env_three nyc)) =
      [Some ''East Bar'', Some ''North Bar'', Some ''Far Bar'']"
    by code_simp
  have g: "map (\<lambda>d. geodesic_kilometers env_three (40.7128, - 74.0060) (store_address d))
      (happy_hour_deals (data_collector_agent env_three nyc)) = [Some 1.11, Some 1.11, Some 2.22]"
    by code_simp
  from deals_sorted_by_distance_stable [OF l f] l f v n g show ?thesis
    by blast
qed

text \<open>
  Claim C7: the duration follows the first matching rule of the specification's table
  (2.5 for lodging or hotel together with bar or restaurant; 2 for lodging or hotel;
  3 for bar, pub or night club; 2 for restaurant; 2 otherwise), for the classification
  and for the venue record built from it; and a venue whose only category is lodging,
  with no mention in its reviews, gives a Deal whose offer contains
  ``Hotel Lobby Bar Happy Hour'' and whose validity is 2.
\<close>

theorem classification_first_match:
  "snd (offer_by_types dp) = spec_duration (case p_types dp of None \<Rightarrow> [] | Some ts \<Rightarrow> ts) \<and>
   v_validity_hours (enrich e p dp pid la lo) = spec_duration (v_types (enrich e p dp pid la lo)) \<and>
   (p_types dp = Some [''lodging''] \<and> \<not> has_happy_hour_mention e dp \<longrightarrow>
      is_substring ''Hotel Lobby Bar Happy Hour''
        (offer_details (format_deal (enrich e p dp pid la lo))) \<and>
      offer_validity_hours (format_deal (enrich e p dp pid la lo)) = 2)"
proof (intro conjI impI)
  show "snd (offer_by_types dp) = spec_duration (case p_types dp of None \<Rightarrow> [] | Some ts \<Rightarrow> ts)"
    by (rule offer_by_types_duration)
  show "v_validity_hours (enrich e p dp pid la lo) = spec_duration (v_types (enrich e p dp pid la lo))"
    by (simp add: enrich_def infer_offer_duration offer_by_types_duration)
next
  assume a: "p_types dp = Some [''lodging''] \<and> \<not> has_happy_hour_mention e dp"
  then have o: "infer_offer e dp =
      (''Hotel Lobby Bar Happy Hour: Special deals on drinks and appetizers for guests and visitors.'', 2)"
    by (simp add: infer_offer_def offer_by_types_def)
  show "is_substring ''Hotel Lobby Bar Happy Hour''
      (offer_details (format_deal (enrich e p dp pid la lo)))"
    by (simp add: format_deal_def enrich_def o)
  show "offer_validity_hours (format_deal (enrich e p dp pid la lo)) = 2"
    by (simp add: format_deal_def enrich_def o)
qed

theorem classification_first_match_witness:
  "p_types hotel_a = Some [''lodging''] \<and> \<not> has_happy_hour_mention env_bar hotel_a \<and>
   is_substring ''Hotel Lobby Bar Happy Hour''
     (offer_details (format_deal (enrich env_bar hotel_a hotel_a ''hotel-a'' 40.71 (- 74.0)))) \<and>
   offer_validity_hours (format_deal (enrich env_bar hotel_a hotel_a ''hotel-a'' 40.71 (- 74.0))) = 2"
proof -
  have h: "p_types hotel_a = Some [''lodging''] \<and> \<not> has_happy_hour_mention env_bar hotel_a"
    by code_simp
  with classification_first_match [of hotel_a env_bar hotel_a "''hotel-a''" "40.71" "- 74.0"]
  show ?thesis
    by blast
qed

text \<open>
  Claim C8: the mention flag is set exactly when the lower-cased text of one of the first
  five reviews contains one of the six keywords, so the reviews after the fifth do not
  count; where lowering acts on a text as it does on ASCII, a review matches exactly when
  a stretch of it spells a keyword up to the case of its letters; a matching review
  decides whatever follows it; when the flag is set the offer text starts with the
  confirmed-by-reviews phrase and the duration is the maximum of the classified
  duration and 2, so at least 2 and not below the classified one; and the duration of
  every venue record is positive.
\<close>

theorem mention_heuristic:
  "(has_happy_hour_mention e dp \<longleftrightarrow>
      (\<exists>r \<in> set (take 5 (case p_reviews dp of None \<Rightarrow> [] | Some rs \<Rightarrow> rs)).
         \<exists>k \<in> set [''happy hour'', ''drink special'', ''half price'', ''discount'',
                    ''specials'', ''deal''].
           \<exists>before after.
             str_lower e (case r of None \<Rightarrow> [] | Some t \<Rightarrow> t) = before @ k @ after)) \<and>
   has_happy_hour_mention e (dp\<lparr> p_reviews := Some rs \<rparr>) =
     has_happy_hour_mention e (dp\<lparr> p_reviews := Some (take 5 rs) \<rparr>) \<and>
   (str_lower e t = ascii_lower t \<longrightarrow>
      (review_mentions e (Some t) \<longleftrightarrow>
         (\<exists>k \<in> set [''happy hour'', ''drink special'', ''half price'', ''discount'',
                     ''specials'', ''deal''].
            \<exists>before mid after. t = before @ mid @ after \<and>
              list_all2
                (\<lambda>a b. a = b \<or>
                   (65 \<le> (of_char a :: nat) \<and> (of_char a :: nat) \<le> 90 \<and>
                    (of_char b :: nat) = of_char a + 32))
                mid k))) \<and>
   (review_mentions e r \<longrightarrow> scan_reviews e (pre @ r # rest)) \<and>
   (has_happy_hour_mention e dp \<longrightarrow>
      prefix ''Happy hour confirmed in recent reviews!'' (v_details (enrich e p dp pid la lo)) \<and>
      v_validity_hours (enrich e p dp pid la lo) = max (snd (offer_by_types dp)) 2 \<and>
      2 \<le> v_validity_hours (enrich e p dp pid la lo) \<and>
      snd (offer_by_types dp) \<le> v_validity_hours (enrich e p dp pid la lo)) \<and>
   0 < v_validity_hours (enrich e p dp pid la lo)"
proof (intro conjI impI)
  show "has_happy_hour_mention e dp \<longleftrightarrow>
      (\<exists>r \<in> set (take 5 (case p_reviews dp of None \<Rightarrow> [] | Some rs \<Rightarrow> rs)).
         \<exists>k \<in> set [''happy hour'', ''drink special'', ''half price'', ''discount'',
                    ''specials'', ''deal''].
           \<exists>before after.
             str_lower e (case r of None \<Rightarrow> [] | Some t \<Rightarrow> t) = before @ k @ after)"
    unfolding has_happy_hour_mention_def Let_def scan_reviews_ex review_mentions_iff ..
  show "has_happy_hour_mention e (dp\<lparr> p_reviews := Some rs \<rparr>) =
      has_happy_hour_mention e (dp\<lparr> p_reviews := Some (take 5 rs) \<rparr>)"
    by (simp add: has_happy_hour_mention_def)
  show "scan_reviews e (pre @ r # rest)" if "review_mentions e r"
    using that by (rule scan_reviews_first)
  show "0 < v_validity_hours (enrich e p dp pid la lo)"
    using offer_by_types_ge2 [of dp] by (simp add: enrich_def infer_offer_duration)
next
  assume l: "str_lower e t = ascii_lower t"
  have "review_mentions e (Some t) \<longleftrightarrow>
      (\<exists>k \<in> set [''happy hour'', ''drink special'', ''half price'', ''discount'',
                  ''specials'', ''deal''].
         \<exists>before mid after. t = before @ mid @ after \<and> map ascii_lower_char mid = k)"
    unfolding review_mentions_iff by (simp only: option.case l ascii_lower_def map_eq_infix)
  also have "\<dots> \<longleftrightarrow>
      (\<exists>k \<in> set [''happy hour'', ''drink special'', ''half price'', ''discount'',
                  ''specials'', ''deal''].
         \<exists>before mid after. t = before @ mid @ after \<and>
           list_all2
             (\<lambda>a b. a = b \<or>
                (65 \<le> (of_char a :: nat) \<and> (of_char a :: nat) \<le> 90 \<and>
                 (of_char b :: nat) = of_char a + 32))
             mid k)"
    by (rule bex_cong [OF refl]) (simp only: ascii_lower_matches)
  finally show "review_mentions e (Some t) \<longleftrightarrow>
      (\<exists>k \<in> set [''happy hour'', ''drink special'', ''half price'', ''discount'',
                  ''specials'', ''deal''].
         \<exists>before mid after. t = before @ mid @ after \<and>
           list_all2
             (\<lambda>a b. a = b \<or>
                (65 \<le> (of_char a :: nat) \<and> (of_char a :: nat) \<le> 90 \<and>
                 (of_char b :: nat) = of_char a + 32))
             mid k)" .
next
  assume m: "has_happy_hour_mention e dp"
  then have i: "infer_offer e dp = confirm_offer e (offer_by_types dp)"
    by (simp add: infer_offer_def)
  show "prefix ''Happy hour confirmed in recent reviews!'' (v_details (enrich e p dp pid la lo))"
    by (simp add: enrich_def i confirm_offer_fst del: prefix_code)
  show "v_validity_hours (enrich e p dp pid la lo) = max (snd (offer_by_types dp)) 2"
    by (simp add: enrich_def i confirm_offer_snd)
  then show "2 \<le> v_validity_hours (enrich e p dp pid la lo)"
    by simp
  show "snd (offer_by_types dp) \<le> v_validity_hours (enrich e p dp pid la lo)"
    by (simp add: enrich_def i confirm_offer_snd)
qed

text \<open>
  The witness. The second review of a pub says ``HALF PRICE'' in capitals, and the flag
  is set; a review without any keyword does not match, in whatever case its letters are
  compared; with the only keyword in the sixth review, or in none, the flag is not set.
  The stand-in for lowering maps each of the 26 capital letters, and nothing else.
\<close>

theorem mention_heuristic_witness:
  "ascii_lower ''ABCDEFGHIJKLMNOPQRSTUVWXYZ @[az 09'' = ''abcdefghijklmnopqrstuvwxyz @[az 09'' \<and>
   str_lower env_bar ''HALF PRICE wings every Monday'' =
     ascii_lower ''HALF PRICE wings every Monday'' \<and>
   review_mentions env_bar (Some ''HALF PRICE wings every Monday'') \<and>
   (\<exists>k \<in> set [''happy hour'', ''drink special'', ''half price'', ''discount'',
               ''specials'', ''deal''].
      \<exists>before mid after. ''HALF PRICE wings every Monday'' = before @ mid @ after \<and>
        list_all2
          (\<lambda>a b. a = b \<or>
             (65 \<le> (of_char a :: nat) \<and> (of_char a :: nat) \<le> 90 \<and>
              (of_char b :: nat) = of_char a + 32))
          mid k) \<and>
   \<not> review_mentions env_bar (Some ''Friendly staff.'') \<and>
   \<not> (\<exists>k \<in> set [''happy hour'', ''drink special'', ''half price'', ''discount'',
                 ''specials'', ''deal''].
        \<exists>before mid after. ''Friendly staff.'' = before @ mid @ after \<and>
          list_all2
            (\<lambda>a b. a = b \<or>
               (65 \<le> (of_char a :: nat) \<and> (of_char a :: nat) \<le> 90 \<and>
                (of_char b :: nat) = of_char a + 32))
            mid k) \<and>
   has_happy_hour_mention env_bar loud_pub \<and>
   \<not> has_happy_hour_mention env_bar late_pub \<and>
   \<not> has_happy_hour_mention env_bar quiet_bar \<and>
   scan_reviews env_bar
     ([Some ''Friendly staff.''] @ Some ''HALF PRICE wings every Monday'' # [None]) \<and>
   prefix ''Happy hour confirmed in recent reviews!''
     (v_details (enrich env_bar loud_pub loud_pub ''pub-1'' 40.71 (- 74.0))) \<and>
   v_validity_hours (enrich env_bar loud_pub loud_pub ''pub-1'' 40.71 (- 74.0)) = 3"
proof -
  have low: "ascii_lower ''ABCDEFGHIJKLMNOPQRSTUVWXYZ @[az 09'' =
      ''abcdefghijklmnopqrstuvwxyz @[az 09''"
    by code_simp
  have s: "str_lower env_bar t = ascii_lower t" for t
    by (simp add: env_bar_def example_env_def)
  have r: "review_mentions env_bar (Some ''HALF PRICE wings every Monday'')"
    by code_simp
  have nr: "\<not> review_mentions env_bar (Some ''Friendly staff.'')"
    by code_simp
  have h: "has_happy_hour_mention env_bar loud_pub"
    by code_simp
  have n1: "\<not> has_happy_hour_mention env_bar late_pub"
    by code_simp
  have n2: "\<not> has_happy_hour_mention env_bar quiet_bar"
    by code_simp
  have o: "snd (offer_by_types loud_pub) = 3"
    by (simp add: offer_by_types_def loud_pub_def example_place_def)
  note t1 = mention_heuristic [where e = env_bar and dp = loud_pub
      and t = "''HALF PRICE wings every Monday''"
      and r = "Some ''HALF PRICE wings every Monday''"
      and pre = "[Some ''Friendly staff.'']" and rest = "[None]"
      and p = loud_pub and pid = "''pub-1''" and la = "40.71" and lo = "- 74.0"]
  note t2 = mention_heuristic [where e = env_bar and t = "''Friendly staff.''"]
  from t1 s r have pos: "\<exists>k \<in> set [''happy hour'', ''drink special'', ''half price'',
        ''discount'', ''specials'', ''deal''].
      \<exists>before mid after. ''HALF PRICE wings every Monday'' = before @ mid @ after \<and>
        list_all2
          (\<lambda>a b. a = b \<or>
             (65 \<le> (of_char a :: nat) \<and> (of_char a :: nat) \<le> 90 \<and>
              (of_char b :: nat) = of_char a + 32))
          mid k"
    by blast
  from t2 s nr have neg: "\<not> (\<exists>k \<in> set [''happy hour'', ''drink special'', ''half price'',
        ''discount'', ''specials'', ''deal''].
      \<exists>before mid after. ''Friendly staff.'' = before @ mid @ after \<and>
        list_all2
          (\<lambda>a b. a = b \<or>
             (65 \<le> (of_char a :: nat) \<and> (of_char a :: nat) \<le> 90 \<and>
              (of_char b :: nat) = of_char a + 32))
          mid k)"
    by blast
  from t1 h r o have rest:
    "scan_reviews env_bar
       ([Some ''Friendly staff.''] @ Some ''HALF PRICE wings every Monday'' # [None]) \<and>
     prefix ''Happy hour confirmed in recent reviews!''
       (v_details (enrich env_bar loud_pub loud_pub ''pub-1'' 40.71 (- 74.0))) \<and>
     v_validity_hours (enrich env_bar loud_pub loud_pub ''pub-1'' 40.71 (- 74.0)) = 3"
    by simp
  from low s r pos nr neg h n1 n2 rest show ?thesis
    by blast
qed

text \<open>
  Claim C9: with the credential empty or equal to the placeholder, discovery raises the
  configuration error without having sent any request, and the run from the state
  \<^verbatim>\<open>main\<close> builds ends after the collector, in the error state, with the message of
  that error and no deals.
\<close>

theorem missing_credential_ends_with_error:
  assumes "GOOGLE_PLACES_API_KEY e = [] \<or>
    GOOGLE_PLACES_API_KEY e = ''YOUR_GOOGLE_PLACES_API_KEY_HERE''"
  shows "fetch_happy_hour_data_live e lat0 lng0 radius_km =
      ([], Inl (ValueError key_error_message)) \<and>
    app_invoke e (initial_state lat0 lng0 name) =
      Some ([data_collector],
        (initial_state lat0 lng0 name)
          \<lparr> error_message := ''Error in Data Collector: '' @ key_error_message \<rparr>) \<and>
    decide_next_step (data_collector_agent e (initial_state lat0 lng0 name)) = end_with_error \<and>
    happy_hour_deals (data_collector_agent e (initial_state lat0 lng0 name)) = []"
proof -
  have f: "fetch_happy_hour_data_live e lat0 lng0 r = ([], Inl (ValueError key_error_message))"
    for r
    using assms by (auto simp: fetch_happy_hour_data_live_def)
  have d: "data_collector_agent e (initial_state lat0 lng0 name) =
      (initial_state lat0 lng0 name)
        \<lparr> error_message := ''Error in Data Collector: '' @ key_error_message \<rparr>"
    by (simp add: data_collector_agent_def f initial_state_def)
  show ?thesis
    by (simp add: f app_invoke_eq d decide_next_step_def) (simp add: initial_state_def)
qed

theorem missing_credential_ends_with_error_witness:
  "GOOGLE_PLACES_API_KEY env_no_key = ''YOUR_GOOGLE_PLACES_API_KEY_HERE'' \<and>
   fst (fetch_happy_hour_data_live env_no_key 40.7128 (- 74.0060) 5) = [] \<and>
   map_option (error_message \<circ> snd) (app_invoke env_no_key nyc) =
     Some (''Error in Data Collector: '' @ key_error_message)"
proof -
  have k: "GOOGLE_PLACES_API_KEY env_no_key = ''YOUR_GOOGLE_PLACES_API_KEY_HERE''"
    by (simp add: env_no_key_def)
  then have "GOOGLE_PLACES_API_KEY env_no_key = [] \<or>
      GOOGLE_PLACES_API_KEY env_no_key = ''YOUR_GOOGLE_PLACES_API_KEY_HERE''"
    by simp
  from missing_credential_ends_with_error [OF this, of "40.7128" "- 74.0060" 5 "''New York''"] k
  show ?thesis
    by (simp add: nyc_def)
qed

text \<open>
  Claim C10: the collector leaves latitude, longitude, location name and publish status
  as they were; the publish node leaves latitude, longitude, location name and the deal
  list as they were.
\<close>

theorem stages_leave_rest_unchanged:
  "lat (data_collector_agent e s) = lat s \<and> lng (data_collector_agent e s) = lng s \<and>
   location_name (data_collector_agent e s) = location_name s \<and>
   api_creation_status (data_collector_agent e s) = api_creation_status s \<and>
   lat (whistle_api_creator_agent s) = lat s \<and> lng (whistle_api_creator_agent s) = lng s \<and>
   location_name (whistle_api_creator_agent s) = location_name s \<and>
   happy_hour_deals (whistle_api_creator_agent s) = happy_hour_deals s"
  by (simp add: data_collector_agent_def whistle_api_creator_agent_def
      split: option.splits sum.splits)

end
